theory Spec2Isabelle
  imports Complex_Main "HOL-Library.Word" "HOL-Library.Signed_Division" "HOL-Library.Monad_Syntax"
begin

section \<open>Number model and vectors\<close>

text \<open>
  The fragment shader of \<^verbatim>\<open>src/generator.js\<close> computes on GLSL \<^verbatim>\<open>float\<close>s and the
  JavaScript around it on IEEE doubles. Both are embedded as \<^typ>\<open>real\<close>: arithmetic is
  exact, rounding, infinities and NaN are not modelled. The places where the program
  divides are written with an explicit check of the divisor (\<open>fdiv\<close> below), so that a
  division by zero is a value of the model and not the \<open>0\<close> that HOL assigns to it.
  GLSL \<^verbatim>\<open>int\<close>s and the JavaScript integers (which stay below \<open>2^53\<close>) are \<^typ>\<open>int\<close>.
\<close>

datatype vec3 = V3 (vx: real) (vy: real) (vz: real)

definition vadd :: "vec3 \<Rightarrow> vec3 \<Rightarrow> vec3" where
  "vadd p q = V3 (vx p + vx q) (vy p + vy q) (vz p + vz q)"

definition vsub :: "vec3 \<Rightarrow> vec3 \<Rightarrow> vec3" where
  "vsub p q = V3 (vx p - vx q) (vy p - vy q) (vz p - vz q)"

definition vmul :: "vec3 \<Rightarrow> vec3 \<Rightarrow> vec3" where
  "vmul p q = V3 (vx p * vx q) (vy p * vy q) (vz p * vz q)"

definition vscale :: "vec3 \<Rightarrow> real \<Rightarrow> vec3" where
  "vscale p s = V3 (vx p * s) (vy p * s) (vz p * s)"

definition vadds :: "vec3 \<Rightarrow> real \<Rightarrow> vec3" where
  "vadds p s = V3 (vx p + s) (vy p + s) (vz p + s)"

definition dot :: "vec3 \<Rightarrow> vec3 \<Rightarrow> real" where
  "dot p q = vx p * vx q + vy p * vy q + vz p * vz q"

definition yzx :: "vec3 \<Rightarrow> vec3" where
  "yzx p = V3 (vy p) (vz p) (vx p)"

definition fract :: "real \<Rightarrow> real" where
  "fract x = x - of_int \<lfloor>x\<rfloor>"

definition fract3 :: "vec3 \<Rightarrow> vec3" where
  "fract3 p = V3 (fract (vx p)) (fract (vy p)) (fract (vz p))"

definition floor3 :: "vec3 \<Rightarrow> vec3" where
  "floor3 p = V3 (of_int \<lfloor>vx p\<rfloor>) (of_int \<lfloor>vy p\<rfloor>) (of_int \<lfloor>vz p\<rfloor>)"

definition mix :: "real \<Rightarrow> real \<Rightarrow> real \<Rightarrow> real" where
  "mix x y a = x * (1 - a) + y * a"

definition mix3 :: "vec3 \<Rightarrow> vec3 \<Rightarrow> real \<Rightarrow> vec3" where
  "mix3 p q a = V3 (mix (vx p) (vx q) a) (mix (vy p) (vy q) a) (mix (vz p) (vz q) a)"

definition cross :: "vec3 \<Rightarrow> vec3 \<Rightarrow> vec3" where
  "cross p q = V3 (vy p * vz q - vz p * vy q) (vz p * vx q - vx p * vz q)
                  (vx p * vy q - vy p * vx q)"

text \<open>
  Division with the divisor checked: \<open>None\<close> stands for the non-finite value (an
  infinity or NaN) that the division by zero produces on the GPU.
\<close>

definition fdiv :: "real \<Rightarrow> real \<Rightarrow> real option" where
  "fdiv x y = (if y = 0 then None else Some (x / y))"

text \<open>GLSL \<^verbatim>\<open>normalize(v)\<close> is \<^verbatim>\<open>v / length(v)\<close>.\<close>

definition normalize :: "vec3 \<Rightarrow> vec3 option" where
  "normalize v = (let l = sqrt (dot v v) in if l = 0 then None else Some (vscale v (1 / l)))"

text \<open>GLSL \<^verbatim>\<open>pow(x, y)\<close> is undefined for \<open>x < 0\<close> and for \<open>x = 0\<close>, \<open>y \<le> 0\<close>.\<close>

definition glsl_pow :: "real \<Rightarrow> real \<Rightarrow> real option" where
  "glsl_pow x y = (if x < 0 \<or> (x = 0 \<and> y \<le> 0) then None else Some (x powr y))"

definition clamp :: "real \<Rightarrow> real \<Rightarrow> real \<Rightarrow> real" where
  "clamp x lo hi = min (max x lo) hi"

section \<open>The uniforms of the fragment shader\<close>

record uniforms =
  uTime :: real
  uRes :: "real \<times> real"
  uSeedVec :: vec3
  uThreshold :: real
  uFreq :: real
  uCamDist :: real
  uOctaves :: int
  uGain :: real
  uLacunarity :: real
  uMaxSteps :: int
  uMaxDist :: real
  uStep :: real
  uCamAngle :: real
  uCamPitch :: real
  uCamPos :: vec3

section \<open>Seeded hash, value noise, fBm and the field\<close>

definition hash31 :: "uniforms \<Rightarrow> vec3 \<Rightarrow> real" where
  "hash31 U p =
     (let p1 = fract3 (vadd (vscale p 0.3183099) (uSeedVec U));
          p2 = vadds p1 (dot p1 (vadds (yzx p1) 19.19))
      in fract ((vx p2 + vy p2) * vz p2))"

definition valueNoise :: "uniforms \<Rightarrow> vec3 \<Rightarrow> real" where
  "valueNoise U p =
     (let i = floor3 p; f = fract3 p;
          n000 = hash31 U (vadd i (V3 0 0 0));
          n100 = hash31 U (vadd i (V3 1 0 0));
          n010 = hash31 U (vadd i (V3 0 1 0));
          n110 = hash31 U (vadd i (V3 1 1 0));
          n001 = hash31 U (vadd i (V3 0 0 1));
          n101 = hash31 U (vadd i (V3 1 0 1));
          n011 = hash31 U (vadd i (V3 0 1 1));
          n111 = hash31 U (vadd i (V3 1 1 1));
          u = vmul (vmul f f) (vsub (V3 3 3 3) (vscale f 2));
          nx00 = mix n000 n100 (vx u);
          nx10 = mix n010 n110 (vx u);
          nx01 = mix n001 n101 (vx u);
          nx11 = mix n011 n111 (vx u);
          nxy0 = mix nx00 nx10 (vy u);
          nxy1 = mix nx01 nx11 (vy u)
      in mix nxy0 nxy1 (vz u))"

text \<open>
  The loop of \<^verbatim>\<open>fbm\<close>: \<^verbatim>\<open>for (int o = 0; o < 8; ++o) { if (o >= uOctaves) break; ... }\<close>,
  with the loop variables passed along (\<open>oc\<close> is the source's \<^verbatim>\<open>o\<close>, \<open>acc\<close> its
  \<^verbatim>\<open>sum\<close>).
\<close>

function fbm_loop :: "uniforms \<Rightarrow> vec3 \<Rightarrow> int \<Rightarrow> real \<Rightarrow> real \<Rightarrow> real \<Rightarrow> real" where
  "fbm_loop U p oc amp f acc =
     (if oc < 8 then
        (if oc \<ge> uOctaves U then acc
         else fbm_loop U p (oc + 1) (amp * uGain U) (f * uLacunarity U)
                (acc + amp * valueNoise U (vscale p f)))
      else acc)"
  by pat_completeness auto
termination
  by (relation "measure (\<lambda>(U, p, oc, amp, f, acc). nat (8 - oc))") auto

declare fbm_loop.simps [simp del]

definition fbm :: "uniforms \<Rightarrow> vec3 \<Rightarrow> real" where
  "fbm U p = fbm_loop U p 0 0.5 (uFreq U) 0"

definition field :: "uniforms \<Rightarrow> vec3 \<Rightarrow> real" where
  "field U p = fbm U (vadd p (V3 0 0 (0.15 * uTime U))) - uThreshold U"


section \<open>Ray marching with zero-crossing refinement\<close>

text \<open>
  The body of the refinement loop
  \<^verbatim>\<open>float m = 0.5*(a+b); float mv = field(ro + rd*m); if (mv * val < 0.0) { a = m; } else { b = m; }\<close>
  on the bracket \<open>(a, b)\<close>, and the loop \<^verbatim>\<open>for (int j=0; j<4; ++j)\<close> around it.
\<close>

definition bisect_step :: "uniforms \<Rightarrow> vec3 \<Rightarrow> vec3 \<Rightarrow> real \<Rightarrow> real \<times> real \<Rightarrow> real \<times> real" where
  "bisect_step U ro rd val ab =
     (case ab of (a, b) \<Rightarrow>
        (let m = 0.5 * (a + b);
             mv = field U (vadd ro (vscale rd m))
         in if mv * val < 0 then (m, b) else (a, m)))"

function bisect_loop ::
  "uniforms \<Rightarrow> vec3 \<Rightarrow> vec3 \<Rightarrow> real \<Rightarrow> int \<Rightarrow> real \<times> real \<Rightarrow> real \<times> real" where
  "bisect_loop U ro rd val j ab =
     (if j < 4 then bisect_loop U ro rd val (j + 1) (bisect_step U ro rd val ab) else ab)"
  by pat_completeness auto
termination
  by (relation "measure (\<lambda>(U, ro, rd, val, j, ab). nat (4 - j))") auto

declare bisect_loop.simps [simp del]

text \<open>
  How the marching loop is left: with a crossing found (\<^verbatim>\<open>hitT\<close> assigned, then
  \<^verbatim>\<open>break\<close>), or without one (\<^verbatim>\<open>hitT\<close> still holds its initial \<open>-1.0\<close>). Both carry
  the value of \<^verbatim>\<open>t\<close> at the exit.
\<close>

datatype loop_exit = Crossing real real | NoCrossing real

fun exit_t :: "loop_exit \<Rightarrow> real" where
  "exit_t (Crossing t h) = t"
| "exit_t (NoCrossing t) = t"

fun hitT :: "loop_exit \<Rightarrow> real" where
  "hitT (Crossing t h) = h"
| "hitT (NoCrossing t) = - 1"

text \<open>
  The loop \<^verbatim>\<open>for (int i=0; i<512; ++i) { if (i >= uMaxSteps) break; ... }\<close> of \<^verbatim>\<open>main\<close>,
  with the loop variables \<open>t\<close> and \<open>prevVal\<close> passed along.
\<close>

function march_loop :: "uniforms \<Rightarrow> vec3 \<Rightarrow> vec3 \<Rightarrow> int \<Rightarrow> real \<Rightarrow> real \<Rightarrow> loop_exit" where
  "march_loop U ro rd i t prevVal =
     (if i < 512 then
        (if i \<ge> uMaxSteps U then NoCrossing t
         else
           (let p = vadd ro (vscale rd t);
                val = field U p
            in if val * prevVal < 0 then
                 (case bisect_loop U ro rd val 0 (t - uStep U, t) of
                    (a, b) \<Rightarrow> Crossing t (0.5 * (a + b)))
               else
                 (let t' = t + uStep U
                  in if t' > uMaxDist U then NoCrossing t'
                     else march_loop U ro rd (i + 1) t' val)))
      else NoCrossing t)"
  by pat_completeness auto
termination
  by (relation "measure (\<lambda>(U, ro, rd, i, t, prevVal). nat (512 - i))") auto

declare march_loop.simps [simp del]

definition march :: "uniforms \<Rightarrow> vec3 \<Rightarrow> vec3 \<Rightarrow> loop_exit" where
  "march U ro rd = march_loop U ro rd 0 0 (field U ro)"

text \<open>
  The result of the marcher as \<^verbatim>\<open>main\<close> reads it: the test \<^verbatim>\<open>hitT > 0.0\<close> selects the
  hit branch, which uses \<^verbatim>\<open>hitT\<close>, or the miss branch, which uses \<^verbatim>\<open>t\<close>.
\<close>

datatype march_result = Hit real | Miss real

definition classify :: "loop_exit \<Rightarrow> march_result" where
  "classify r = (if hitT r > 0 then Hit (hitT r) else Miss (exit_t r))"

section \<open>Shading\<close>

definition grad :: "uniforms \<Rightarrow> vec3 \<Rightarrow> vec3 option" where
  "grad U p =
     (let e = 0.002; c = field U p
      in normalize (V3 (field U (vadd p (V3 e 0 0)) - c)
                       (field U (vadd p (V3 0 e 0)) - c)
                       (field U (vadd p (V3 0 0 e)) - c)))"

definition shade_hit :: "uniforms \<Rightarrow> vec3 \<Rightarrow> vec3 \<Rightarrow> real \<Rightarrow> vec3 option" where
  "shade_hit U ro rd h =
     do {
       let p = vadd ro (vscale rd h);
       n \<leftarrow> grad U p;
       ld1 \<leftarrow> normalize (V3 0.6 0.7 0.5);
       ld2 \<leftarrow> normalize (V3 (- 0.4) 0.3 0.8);
       ld3 \<leftarrow> normalize (V3 0.2 (- 0.8) 0.4);
       let diff1 = clamp (dot n ld1) 0 1;
       let diff2 = clamp (dot n ld2) 0 1 * 0.3;
       let diff3 = clamp (dot n ld3) 0 1 * 0.2;
       let ao = clamp (0.4 + 0.6 * field U (vadd p (vscale n 0.3))) 0 1;
       let rock = V3 0.45 0.42 0.38;
       let lightCol1 = V3 1 0.95 0.8;
       let lightCol2 = V3 0.8 0.9 1;
       let lightCol3 = V3 0.9 0.85 0.7;
       let totalLight = vadd (vadd (vscale lightCol1 diff1) (vscale lightCol2 diff2))
                             (vscale lightCol3 diff3);
       let col = vscale (vmul rock (vadds (vscale totalLight 0.8) 0.2)) ao;
       let sss = clamp (0.1 + 0.3 * (1 - \<bar>dot n rd\<bar>)) 0 1;
       Some (vadd col (vscale (V3 0.1 0.08 0.06) sss))
     }"

definition shade_miss :: "uniforms \<Rightarrow> real \<Rightarrow> vec3 option" where
  "shade_miss U t =
     do {
       fogFactor \<leftarrow> fdiv 1 (uMaxDist U);
       let v = exp (- fogFactor * t);
       let fogColor = mix3 (V3 0.1 0.15 0.2) (V3 0 0 0) v;
       distanceRatio \<leftarrow> fdiv t (uMaxDist U);
       let distanceColor = V3 (0.2 * distanceRatio) (0.1 * distanceRatio) (0.05 * distanceRatio);
       Some (vadd fogColor distanceColor)
     }"

text \<open>The tonemap \<^verbatim>\<open>col / (1.0 + col)\<close>, on one component and on the vector.\<close>

definition tonemap1 :: "real \<Rightarrow> real option" where
  "tonemap1 c = fdiv c (1 + c)"

definition tonemap :: "vec3 \<Rightarrow> vec3 option" where
  "tonemap col =
     do {
       r \<leftarrow> tonemap1 (vx col);
       g \<leftarrow> tonemap1 (vy col);
       b \<leftarrow> tonemap1 (vz col);
       Some (V3 r g b)
     }"

text \<open>The output curve \<^verbatim>\<open>pow(col, vec3(0.95))\<close>.\<close>

definition gamma :: "vec3 \<Rightarrow> vec3 option" where
  "gamma col =
     do {
       r \<leftarrow> glsl_pow (vx col) 0.95;
       g \<leftarrow> glsl_pow (vy col) 0.95;
       b \<leftarrow> glsl_pow (vz col) 0.95;
       Some (V3 r g b)
     }"

text \<open>
  \<^verbatim>\<open>main\<close> from the ray on: march, shade the hit or the miss, tonemap, output curve.
  \<open>None\<close> is a pixel with a non-finite or undefined component.
\<close>

definition branch_color :: "uniforms \<Rightarrow> vec3 \<Rightarrow> vec3 \<Rightarrow> loop_exit \<Rightarrow> vec3 option" where
  "branch_color U ro rd r =
     (if hitT r > 0 then shade_hit U ro rd (hitT r) else shade_miss U (exit_t r))"

definition main_color :: "uniforms \<Rightarrow> vec3 \<Rightarrow> vec3 \<Rightarrow> vec3 option" where
  "main_color U ro rd =
     do {
       col \<leftarrow> branch_color U ro rd (march U ro rd);
       col \<leftarrow> tonemap col;
       gamma col
     }"

text \<open>The camera set-up of \<^verbatim>\<open>main\<close>, which yields the ray \<open>(ro, rd)\<close> of a pixel.\<close>

definition lookAt :: "vec3 \<Rightarrow> vec3 \<Rightarrow> (vec3 \<times> vec3 \<times> vec3) option" where
  "lookAt ro ta =
     do {
       ww \<leftarrow> normalize (vsub ta ro);
       uu \<leftarrow> normalize (cross (V3 0 1 0) ww);
       let vv = cross ww uu;
       Some (uu, vv, ww)
     }"

definition mat_vec :: "vec3 \<times> vec3 \<times> vec3 \<Rightarrow> vec3 \<Rightarrow> vec3" where
  "mat_vec m v =
     (case m of (c0, c1, c2) \<Rightarrow>
        vadd (vadd (vscale c0 (vx v)) (vscale c1 (vy v))) (vscale c2 (vz v)))"

definition main :: "uniforms \<Rightarrow> real \<times> real \<Rightarrow> vec3 option" where
  "main U vUv =
     do {
       asp \<leftarrow> fdiv (fst (uRes U)) (snd (uRes U));
       let uvx = (fst vUv * 2 - 1) * asp;
       let uvy = snd vUv * 2 - 1;
       let ro = uCamPos U;
       let forward = V3 (sin (uCamAngle U)) 0 (cos (uCamAngle U));
       let cosPitch = cos (uCamPitch U);
       let sinPitch = sin (uCamPitch U);
       forward \<leftarrow> normalize (V3 (vx forward * cosPitch) sinPitch (vz forward * cosPitch));
       let ta = vadd ro forward;
       cam \<leftarrow> lookAt ro ta;
       d \<leftarrow> normalize (V3 uvx uvy 1.6);
       rd \<leftarrow> normalize (mat_vec cam d);
       main_color U ro rd
     }"

section \<open>The parameters and the uniforms derived from them\<close>

record params =
  seed :: real
  threshold :: real
  freq :: real
  octaves :: real
  gain :: real
  lacunarity :: real
  camDist :: real
  maxSteps :: real
  maxDist :: real
  stepSize :: real

definition default_params :: params where
  "default_params =
     \<lparr> seed = 0, threshold = 0.3, freq = 0.3, octaves = 3, gain = 0.8, lacunarity = 2,
       camDist = 3, maxSteps = 1024, maxDist = 200, stepSize = 0.01 \<rparr>"

text \<open>
  One entry of the query string: \<^verbatim>\<open>if (k in params) params[k] = Number(v);\<close>. The value
  is given as the number that \<^verbatim>\<open>Number(v)\<close> returns. A key that is not a parameter
  changes nothing that the uniforms read.
\<close>

definition set_param :: "string \<Rightarrow> real \<Rightarrow> params \<Rightarrow> params" where
  "set_param k v P =
     (if k = ''seed'' then P\<lparr>seed := v\<rparr>
      else if k = ''threshold'' then P\<lparr>threshold := v\<rparr>
      else if k = ''freq'' then P\<lparr>freq := v\<rparr>
      else if k = ''octaves'' then P\<lparr>octaves := v\<rparr>
      else if k = ''gain'' then P\<lparr>gain := v\<rparr>
      else if k = ''lacunarity'' then P\<lparr>lacunarity := v\<rparr>
      else if k = ''camDist'' then P\<lparr>camDist := v\<rparr>
      else if k = ''maxSteps'' then P\<lparr>maxSteps := v\<rparr>
      else if k = ''maxDist'' then P\<lparr>maxDist := v\<rparr>
      else if k = ''stepSize'' then P\<lparr>stepSize := v\<rparr>
      else P)"

fun parse_query :: "(string \<times> real) list \<Rightarrow> params \<Rightarrow> params" where
  "parse_query [] P = P"
| "parse_query ((k, v) # qs) P = parse_query qs (set_param k v P)"

text \<open>
  JavaScript's \<^verbatim>\<open>x|0\<close> (ToInt32): truncate towards zero, then wrap into the signed
  32-bit range. The WebGL binding converts a number given for an \<^verbatim>\<open>int\<close> uniform in the
  same way.
\<close>

definition toInt32 :: "real \<Rightarrow> int" where
  "toInt32 x = sint (word_of_int (if x \<ge> 0 then \<lfloor>x\<rfloor> else \<lceil>x\<rceil>) :: 32 word)"

text \<open>
  The function behind \<^verbatim>\<open>uSeedVec\<close>, from \<open>s = params.seed|0\<close> on. JavaScript's \<^verbatim>\<open>%\<close>
  takes the sign of the dividend (\<open>smod\<close>); the products stay below \<open>2^53\<close> and are exact.
\<close>

definition seedVec :: "int \<Rightarrow> vec3" where
  "seedVec s =
     (let x = real_of_int ((s * 16807) smod 2147483647) / 2147483647;
          y = real_of_int ((s * 48271) smod 2147483647) / 2147483647;
          z = real_of_int ((s * 69621) smod 2147483647) / 2147483647
      in V3 x y z)"

text \<open>
  The uniforms of one frame. Time, viewport and camera come from outside of the file
  (\<^verbatim>\<open>cameraAngle\<close>, \<^verbatim>\<open>cameraPitch\<close>, \<^verbatim>\<open>cameraX\<close>, ... are globals of another script).
\<close>

definition uniforms_of ::
  "params \<Rightarrow> real \<Rightarrow> real \<times> real \<Rightarrow> real \<Rightarrow> real \<Rightarrow> vec3 \<Rightarrow> uniforms" where
  "uniforms_of P time res cameraAngle cameraPitch cameraPos =
     \<lparr> uTime = time, uRes = res, uSeedVec = seedVec (toInt32 (seed P)),
       uThreshold = threshold P, uFreq = freq P, uCamDist = camDist P,
       uOctaves = toInt32 (octaves P), uGain = gain P, uLacunarity = lacunarity P,
       uMaxSteps = toInt32 (maxSteps P), uMaxDist = maxDist P, uStep = stepSize P,
       uCamAngle = cameraAngle, uCamPitch = cameraPitch, uCamPos = cameraPos \<rparr>"

section \<open>A scene on the x axis\<close>

text \<open>
  One octave at frequency 1, seed 0 and time 0, for a ray from the origin along the x axis
  with step 1; the threshold is the value of \<open>fbm\<close> at \<open>x = 1/2\<close>, so that the field is
  exactly zero there.
\<close>

definition axis_uniforms :: uniforms where
  "axis_uniforms =
     uniforms_of
       (default_params\<lparr>threshold := 284324016013760311 / 2000000000000000000,
                       freq := 1, octaves := 1, stepSize := 1\<rparr>)
       0 (800, 600) 0 0 (V3 0 0 0)"

section \<open>A scene with the origin at the midpoint of the bracket\<close>

text \<open>
  Seed 0, time 0, threshold 0, two octaves with gain \<open>-1\<close> at frequencies 1 and 2, and a ray
  from \<open>(0,0,-1)\<close> along the z axis (camera angle and pitch 0, \<open>vUv = (1/2, 1/2)\<close>) with
  step 2. The program stores every number given for a parameter, so \<open>gain = -1\<close> and
  \<open>threshold = 0\<close> reach the shader as they are; all parameters are small integers.
  The samples of the marcher are the lattice points \<open>(0,0,-1)\<close> and \<open>(0,0,1)\<close>, and the midpoint
  of the first bracket is the origin. There the field is exactly zero, also in floating
  point arithmetic: with seed 0 the hash of the origin is \<open>fract(0) = 0\<close>, the interpolation
  weights are 0, every octave adds \<open>amp * 0\<close>, and the threshold 0 is subtracted.
\<close>

definition origin_uniforms :: uniforms where
  "origin_uniforms =
     uniforms_of
       (default_params\<lparr>threshold := 0, freq := 1, octaves := 2, gain := - 1, stepSize := 2\<rparr>)
       0 (801, 601) 0 0 (V3 0 0 (- 1))"


section \<open>Bounds of the noise primitives\<close>

lemma fract_bounds: "0 \<le> fract x \<and> fract x < 1"
  unfolding fract_def by linarith

lemma hash31_bounds: "0 \<le> hash31 U p \<and> hash31 U p < 1"
  unfolding hash31_def Let_def by (rule fract_bounds)

lemma smooth_weight_bounds:
  fixes t :: real
  assumes "0 \<le> t" "t < 1"
  shows "0 \<le> t * t * (3 - t * 2) \<and> t * t * (3 - t * 2) \<le> 1"
proof
  from assms show "0 \<le> t * t * (3 - t * 2)" by simp
  have "1 - t * t * (3 - t * 2) = (1 - t) * (1 - t) * (1 + 2 * t)"
    by (simp add: algebra_simps)
  also from assms have "\<dots> \<ge> 0" by simp
  finally show "t * t * (3 - t * 2) \<le> 1" by simp
qed

lemma mix_bounds:
  fixes x y a :: real
  assumes "0 \<le> x" "x < 1" "0 \<le> y" "y < 1" "0 \<le> a" "a \<le> 1"
  shows "0 \<le> mix x y a \<and> mix x y a < 1"
proof
  from assms show "0 \<le> mix x y a" by (simp add: mix_def)
  have "x * (1 - a) \<le> 1 * (1 - a)" using assms by (intro mult_right_mono) auto
  moreover have "y * a \<le> 1 * a" using assms by (intro mult_right_mono) auto
  ultimately have le: "mix x y a \<le> 1" by (simp add: mix_def)
  show "mix x y a < 1"
  proof (cases "a = 0")
    case True
    with assms show ?thesis by (simp add: mix_def)
  next
    case False
    with assms have "0 < a" by simp
    with assms have "y * a < 1 * a" by (intro mult_strict_right_mono) auto
    moreover have "x * (1 - a) \<le> 1 * (1 - a)" using assms by (intro mult_right_mono) auto
    ultimately show ?thesis by (simp add: mix_def)
  qed
qed

lemma valueNoise_bounds: "0 \<le> valueNoise U p \<and> valueNoise U p < 1"
proof -
  define f where "f = fract3 p"
  define u where "u = vmul (vmul f f) (vsub (V3 3 3 3) (vscale f 2))"
  have fx: "0 \<le> vx f \<and> vx f < 1" and fy: "0 \<le> vy f \<and> vy f < 1" and fz: "0 \<le> vz f \<and> vz f < 1"
    by (simp_all add: f_def fract3_def fract_bounds)
  have ux: "0 \<le> vx u \<and> vx u \<le> 1"
    using smooth_weight_bounds [of "vx f"] fx by (simp add: u_def vmul_def vsub_def vscale_def)
  have uy: "0 \<le> vy u \<and> vy u \<le> 1"
    using smooth_weight_bounds [of "vy f"] fy by (simp add: u_def vmul_def vsub_def vscale_def)
  have uz: "0 \<le> vz u \<and> vz u \<le> 1"
    using smooth_weight_bounds [of "vz f"] fz by (simp add: u_def vmul_def vsub_def vscale_def)
  note h = hash31_bounds [of U]
  have m1: "\<And>q r a. 0 \<le> a \<and> a \<le> 1 \<Longrightarrow>
      0 \<le> mix (hash31 U q) (hash31 U r) a \<and> mix (hash31 U q) (hash31 U r) a < 1"
    using h by (intro mix_bounds) auto
  have m2: "\<And>q r q' r' a b. 0 \<le> a \<and> a \<le> 1 \<Longrightarrow> 0 \<le> b \<and> b \<le> 1 \<Longrightarrow>
      0 \<le> mix (mix (hash31 U q) (hash31 U r) a) (mix (hash31 U q') (hash31 U r') a) b
      \<and> mix (mix (hash31 U q) (hash31 U r) a) (mix (hash31 U q') (hash31 U r') a) b < 1"
    using m1 by (intro mix_bounds) auto
  show ?thesis
    unfolding valueNoise_def Let_def f_def [symmetric] u_def [symmetric]
    using m2 [OF ux uy] uz by (intro mix_bounds) auto
qed

section \<open>The octave loop in closed form\<close>

lemma fbm_loop_closed:
  "fbm_loop U p oc amp f acc =
     acc + (\<Sum>k<nat (min (uOctaves U) 8 - oc).
              amp * uGain U ^ k * valueNoise U (vscale p (f * uLacunarity U ^ k)))"
proof (induction U p oc amp f acc rule: fbm_loop.induct)
  case (1 U p oc amp f acc)
  show ?case
  proof (cases "oc < 8 \<and> \<not> uOctaves U \<le> oc")
    case True
    then have n: "nat (min (uOctaves U) 8 - oc) = Suc (nat (min (uOctaves U) 8 - (oc + 1)))"
      by (auto simp: min_def)
    from True have "fbm_loop U p oc amp f acc =
        fbm_loop U p (oc + 1) (amp * uGain U) (f * uLacunarity U)
          (acc + amp * valueNoise U (vscale p f))"
      by (subst fbm_loop.simps) simp
    also have "\<dots> = acc + amp * valueNoise U (vscale p f) +
        (\<Sum>k<nat (min (uOctaves U) 8 - (oc + 1)).
           amp * uGain U * uGain U ^ k * valueNoise U (vscale p (f * uLacunarity U * uLacunarity U ^ k)))"
      using True by (subst "1.IH") simp_all
    also have "\<dots> = acc + (\<Sum>k<nat (min (uOctaves U) 8 - oc).
              amp * uGain U ^ k * valueNoise U (vscale p (f * uLacunarity U ^ k)))"
      unfolding n by (simp only: sum.lessThan_Suc_shift) (simp add: mult.assoc)
    finally show ?thesis .
  next
    case False
    then have "nat (min (uOctaves U) 8 - oc) = 0" by (auto simp: min_def)
    moreover from False have "fbm_loop U p oc amp f acc = acc"
      by (subst fbm_loop.simps) auto
    ultimately show ?thesis by simp
  qed
qed

lemma fbm_closed:
  "fbm U p = (\<Sum>k<nat (min (uOctaves U) 8).
                0.5 * uGain U ^ k * valueNoise U (vscale p (uFreq U * uLacunarity U ^ k)))"
  by (simp add: fbm_def fbm_loop_closed)

lemma hash31_uOctaves: "hash31 (U\<lparr>uOctaves := n\<rparr>) p = hash31 U p"
  by (simp add: hash31_def)

lemma valueNoise_uOctaves: "valueNoise (U\<lparr>uOctaves := n\<rparr>) p = valueNoise U p"
  by (simp only: valueNoise_def hash31_uOctaves)

lemma fbm_octaves_ge_8:
  assumes "8 \<le> n"
  shows "fbm (U\<lparr>uOctaves := n\<rparr>) p = fbm (U\<lparr>uOctaves := 8\<rparr>) p"
  using assms by (simp add: fbm_closed min_def valueNoise_uOctaves)

text \<open>
  Claim C4. The fractal field is the sum of the first \<open>min(uOctaves, 8)\<close> octaves, so it
  never accumulates more than 8 of them whatever count is requested, and a request above
  8 is clamped without any failure. In particular the field with 20 requested octaves
  equals the field with 8 requested octaves at every point, for all other uniforms, and
  also when the count is given as the parameter \<open>octaves\<close>.
\<close>

theorem fbm_octave_cap:
  "fbm U p = (\<Sum>k<nat (min (uOctaves U) 8).
                0.5 * uGain U ^ k * valueNoise U (vscale p (uFreq U * uLacunarity U ^ k)))
   \<and> nat (min (uOctaves U) 8) \<le> 8
   \<and> field (U\<lparr>uOctaves := 20\<rparr>) p = field (U\<lparr>uOctaves := 8\<rparr>) p
   \<and> field (uniforms_of (P\<lparr>octaves := 20\<rparr>) tm res ca cp cpos) p
       = field (uniforms_of (P\<lparr>octaves := 8\<rparr>) tm res ca cp cpos) p"
proof -
  have e: "field (V\<lparr>uOctaves := 20\<rparr>) p = field (V\<lparr>uOctaves := 8\<rparr>) p" for V
    using fbm_octaves_ge_8 [of 20 V] by (simp add: field_def)
  have t: "toInt32 20 = 20" "toInt32 8 = 8"
    by (simp_all add: toInt32_def)
  have u: "uniforms_of (P\<lparr>octaves := n\<rparr>) tm res ca cp cpos
           = (uniforms_of P tm res ca cp cpos)\<lparr>uOctaves := toInt32 n\<rparr>" for n
    by (simp add: uniforms_of_def)
  have "field (uniforms_of (P\<lparr>octaves := 20\<rparr>) tm res ca cp cpos) p
       = field (uniforms_of (P\<lparr>octaves := 8\<rparr>) tm res ca cp cpos) p"
    unfolding u t by (rule e)
  with e [of U] show ?thesis by (simp add: fbm_closed)
qed

lemma fbm_bounds:
  assumes g: "0 < uGain U" "uGain U < 1"
  shows "0 \<le> fbm U p \<and> fbm U p \<le> 0.5 * (\<Sum>k<8. uGain U ^ k)"
proof
  let ?n = "nat (min (uOctaves U) 8)"
  let ?v = "\<lambda>k. valueNoise U (vscale p (uFreq U * uLacunarity U ^ k))"
  have term_nonneg: "0 \<le> 0.5 * uGain U ^ k * ?v k" for k
    using g valueNoise_bounds [of U] by simp
  show "0 \<le> fbm U p"
    unfolding fbm_closed by (rule sum_nonneg) (use term_nonneg in blast)
  have term_le: "0.5 * uGain U ^ k * ?v k \<le> 0.5 * uGain U ^ k" for k
  proof -
    have "0.5 * uGain U ^ k * ?v k \<le> 0.5 * uGain U ^ k * 1"
      using g valueNoise_bounds [of U "vscale p (uFreq U * uLacunarity U ^ k)"]
      by (intro mult_left_mono) auto
    then show ?thesis by simp
  qed
  have "fbm U p \<le> (\<Sum>k<?n. 0.5 * uGain U ^ k)"
    unfolding fbm_closed by (rule sum_mono) (rule term_le)
  also have "\<dots> \<le> (\<Sum>k<8. 0.5 * uGain U ^ k)"
    using g by (intro sum_mono2) auto
  also have "\<dots> = 0.5 * (\<Sum>k<8. uGain U ^ k)"
    by (simp add: sum_distrib_left)
  finally show "fbm U p \<le> 0.5 * (\<Sum>k<8. uGain U ^ k)" .
qed

text \<open>
  Claim C9. For every point \<open>p\<close> (and every seed vector), \<open>hash31 p\<close> lies in \<open>[0,1)\<close>;
  \<open>valueNoise p\<close>, the trilinear interpolation of eight corner hashes with the smoothstep
  weights, lies in \<open>[0,1)\<close> too; and when the gain is in \<open>(0,1)\<close>, \<open>fbm p\<close> is nonnegative
  and at most \<open>0.5 * (1 + gain + ... + gain^7)\<close>.
\<close>

theorem noise_bounds:
  "0 \<le> hash31 U p \<and> hash31 U p < 1 \<and>
   0 \<le> valueNoise U p \<and> valueNoise U p < 1 \<and>
   (\<forall>t::real. 0 \<le> t \<and> t < 1 \<longrightarrow> 0 \<le> t * t * (3 - t * 2) \<and> t * t * (3 - t * 2) \<le> 1) \<and>
   (0 < uGain U \<and> uGain U < 1 \<longrightarrow>
      0 \<le> fbm U p \<and> fbm U p \<le> 0.5 * (\<Sum>k<8. uGain U ^ k))"
  using hash31_bounds [of U p] valueNoise_bounds [of U p] fbm_bounds [of U p]
    smooth_weight_bounds
  by blast

theorem noise_bounds_witness:
  "0 < uGain (uniforms_of default_params 0 (800, 600) 0 0 (V3 0 0 0)) \<and>
   uGain (uniforms_of default_params 0 (800, 600) 0 0 (V3 0 0 0)) < 1 \<and>
   0 \<le> fbm (uniforms_of default_params 0 (800, 600) 0 0 (V3 0 0 0)) (V3 0 0 0) \<and>
   fbm (uniforms_of default_params 0 (800, 600) 0 0 (V3 0 0 0)) (V3 0 0 0)
     \<le> 0.5 * (\<Sum>k<8. (0.8::real) ^ k) \<and>
   (0::real) \<le> 1 / 2 \<and> (1 / 2 :: real) < 1 \<and>
   (1 / 2 :: real) * (1 / 2) * (3 - 1 / 2 * 2) \<le> 1"
  using noise_bounds [of "uniforms_of default_params 0 (800, 600) 0 0 (V3 0 0 0)" "V3 0 0 0"]
  by (simp add: uniforms_of_def default_params_def)

section \<open>The seed vector\<close>

lemma toInt32_of_int:
  assumes "- (2 ^ 31) \<le> s" "s < 2 ^ 31"
  shows "toInt32 (real_of_int s) = s"
proof -
  have "(if real_of_int s \<ge> 0 then \<lfloor>real_of_int s\<rfloor> else \<lceil>real_of_int s\<rceil>) = s"
    by simp
  then have "toInt32 (real_of_int s) = sint (word_of_int s :: 32 word)"
    by (simp only: toInt32_def)
  also have "\<dots> = signed_take_bit 31 s"
    by (simp add: sint_sbintrunc')
  also have "\<dots> = s"
    using assms by (intro signed_take_bit_int_eq_self) simp_all
  finally show ?thesis .
qed

lemma toInt32_sint: "toInt32 (real_of_int (sint (w :: 32 word))) = sint w"
proof (rule toInt32_of_int)
  show "- (2 ^ 31) \<le> sint w" using sint_ge [of w] by simp
  show "sint w < 2 ^ 31" using sint_lt [of w] by simp
qed

lemma smod_nonneg:
  fixes k m :: int
  assumes "0 \<le> k" "0 < m"
  shows "k smod m = k mod m"
proof (cases "k = 0")
  case True
  then show ?thesis by (simp add: signed_modulo_int_def)
next
  case False
  with assms show ?thesis by (simp add: signed_modulo_int_def)
qed

lemma smod_abs_less:
  fixes k m :: int
  assumes "0 < m"
  shows "- m < k smod m \<and> k smod m < m"
proof -
  define r where "r = \<bar>k\<bar> mod m"
  have r: "0 \<le> r" "r < m" using assms by (simp_all add: r_def)
  have e: "k smod m = sgn k * r"
    using assms by (simp add: signed_modulo_int_def r_def)
  consider "sgn k = 1" | "sgn k = 0" | "sgn k = - 1"
    by (cases "k < 0"; cases "k = 0") simp_all
  then show ?thesis
    using r assms by cases (simp_all add: e)
qed

lemma seed_update: "seed (P\<lparr>seed := v\<rparr>) = v"
  by simp

lemma lcg_component_range:
  fixes k :: int
  shows "- 1 < real_of_int (k smod 2147483647) / 2147483647 \<and>
         real_of_int (k smod 2147483647) / 2147483647 < 1"
proof -
  have "- 2147483647 < k smod 2147483647 \<and> k smod 2147483647 < 2147483647"
    by (rule smod_abs_less) simp
  then have "- 2147483647 < real_of_int (k smod 2147483647) \<and>
             real_of_int (k smod 2147483647) < 2147483647"
    by linarith
  then show ?thesis by simp
qed

lemma lcg_component_nonneg:
  fixes k :: int
  assumes "0 \<le> k"
  shows "k smod 2147483647 = k mod 2147483647" 
    and "0 \<le> real_of_int (k smod 2147483647) / 2147483647"
proof -
  show e: "k smod 2147483647 = k mod 2147483647" using assms by (intro smod_nonneg) simp_all
  have "0 \<le> k mod 2147483647" by simp
  then have "0 \<le> k smod 2147483647" by (simp only: e)
  then show "0 \<le> real_of_int (k smod 2147483647) / 2147483647" by simp
qed

lemma uSeedVec_uniforms_of:
  "uSeedVec (uniforms_of P tm res ca cp cpos) = seedVec (toInt32 (seed P))"
  by (simp add: uniforms_of_def)

text \<open>
  Claim C5, as amended. For every 32-bit integer seed \<open>s\<close>, the seed vector is
  \<open>((s*16807) % M)/M, ((s*48271) % M)/M, ((s*69621) % M)/M\<close> with \<open>M = 2147483647\<close> and
  \<open>%\<close> the remainder that takes the sign of \<open>s\<close>; it is a function of the seed alone; each
  component lies in the open interval \<open>(-1,1)\<close>; and for \<open>s \<ge> 0\<close> the remainder is the
  mathematical \<open>mod\<close> and each component lies in \<open>[0,1)\<close>.
\<close>

theorem seedVec_formula_and_range:
  fixes s :: "32 word"
  defines "U \<equiv> uniforms_of (default_params\<lparr>seed := real_of_int (sint s)\<rparr>) 0 (800, 600) 0 0 (V3 0 0 0)"
  shows "uSeedVec U =
           V3 (real_of_int ((sint s * 16807) smod 2147483647) / 2147483647)
              (real_of_int ((sint s * 48271) smod 2147483647) / 2147483647)
              (real_of_int ((sint s * 69621) smod 2147483647) / 2147483647)
         \<and> - 1 < vx (uSeedVec U) \<and> vx (uSeedVec U) < 1
         \<and> - 1 < vy (uSeedVec U) \<and> vy (uSeedVec U) < 1
         \<and> - 1 < vz (uSeedVec U) \<and> vz (uSeedVec U) < 1
         \<and> (0 \<le> sint s \<longrightarrow>
              uSeedVec U =
                V3 (real_of_int ((sint s * 16807) mod 2147483647) / 2147483647)
                   (real_of_int ((sint s * 48271) mod 2147483647) / 2147483647)
                   (real_of_int ((sint s * 69621) mod 2147483647) / 2147483647)
              \<and> 0 \<le> vx (uSeedVec U) \<and> 0 \<le> vy (uSeedVec U) \<and> 0 \<le> vz (uSeedVec U))"
proof -
  have sv: "uSeedVec U = seedVec (sint s)"
    unfolding U_def uSeedVec_uniforms_of by (simp only: seed_update toInt32_sint)
  have formula: "seedVec (sint s) =
           V3 (real_of_int ((sint s * 16807) smod 2147483647) / 2147483647)
              (real_of_int ((sint s * 48271) smod 2147483647) / 2147483647)
              (real_of_int ((sint s * 69621) smod 2147483647) / 2147483647)"
    by (simp add: seedVec_def)
  have r1: "- 1 < real_of_int ((sint s * 16807) smod 2147483647) / 2147483647"
           "real_of_int ((sint s * 16807) smod 2147483647) / 2147483647 < 1"
    and r2: "- 1 < real_of_int ((sint s * 48271) smod 2147483647) / 2147483647"
           "real_of_int ((sint s * 48271) smod 2147483647) / 2147483647 < 1"
    and r3: "- 1 < real_of_int ((sint s * 69621) smod 2147483647) / 2147483647"
           "real_of_int ((sint s * 69621) smod 2147483647) / 2147483647 < 1"
    using lcg_component_range [of "sint s * 16807"] lcg_component_range [of "sint s * 48271"]
      lcg_component_range [of "sint s * 69621"] by blast+
  have pos: "(sint s * c) smod 2147483647 = (sint s * c) mod 2147483647
             \<and> 0 \<le> real_of_int ((sint s * c) smod 2147483647) / 2147483647"
    if "0 \<le> sint s" "0 \<le> c" for c
  proof -
    from that have "0 \<le> sint s * c" by simp
    then show ?thesis
      using lcg_component_nonneg [of "sint s * c"] by blast
  qed
  show ?thesis
    unfolding sv formula vec3.sel
    using r1 r2 r3 pos [of 16807] pos [of 48271] pos [of 69621] by simp
qed

text \<open>
  Claim C5 as stated fails for a negative seed: with \<open>seed = -1\<close> the first component of
  the seed vector is \<open>-16807/2147483647\<close>, which is not in \<open>[0,1)\<close>.
\<close>

theorem seedVec_negative_seed:
  "vx (uSeedVec (uniforms_of (default_params\<lparr>seed := - 1\<rparr>) 0 (800, 600) 0 0 (V3 0 0 0)))
     = - (16807 / 2147483647)
   \<and> \<not> 0 \<le> vx (uSeedVec (uniforms_of (default_params\<lparr>seed := - 1\<rparr>) 0 (800, 600) 0 0
                     (V3 0 0 0)))"
proof -
  have "toInt32 (- 1) = - 1"
    using toInt32_of_int [of "- 1"] by simp
  then show ?thesis
    by (simp add: uSeedVec_uniforms_of seedVec_def signed_modulo_int_def)
qed

theorem seedVec_formula_and_range_witness:
  "0 \<le> sint (42 :: 32 word) \<and>
   uSeedVec (uniforms_of (default_params\<lparr>seed := real_of_int (sint (42 :: 32 word))\<rparr>)
        0 (800, 600) 0 0 (V3 0 0 0)) = V3 (705894 / 2147483647) (2027382 / 2147483647) (2924082 / 2147483647)"
  using seedVec_formula_and_range [of 42] by simp

text \<open>
  Claim C6. Two distinct integer seeds in \<open>[0, 10000)\<close> give distinct seed vectors: on this
  range \<open>s * 16807\<close> stays below the modulus, so the first component is injective.
\<close>

theorem seed_no_collision:
  assumes "0 \<le> s1" "s1 < 10000" "0 \<le> s2" "s2 < 10000" "s1 \<noteq> s2"
  shows "uSeedVec (uniforms_of (P\<lparr>seed := real_of_int s1\<rparr>) tm res ca cp cpos)
       \<noteq> uSeedVec (uniforms_of (P\<lparr>seed := real_of_int s2\<rparr>) tm res ca cp cpos)"
proof -
  have x: "vx (seedVec s) = real_of_int (s * 16807) / 2147483647" if "0 \<le> s" "s < 10000" for s
  proof -
    from that have "(s * 16807) smod 2147483647 = (s * 16807) mod 2147483647"
      by (intro smod_nonneg) simp_all
    also from that have "\<dots> = s * 16807" by simp
    finally show ?thesis by (simp add: seedVec_def)
  qed
  have t: "toInt32 (real_of_int s) = s" if "0 \<le> s" "s < 10000" for s
    using that by (intro toInt32_of_int) simp_all
  have "vx (seedVec s1) \<noteq> vx (seedVec s2)"
    using assms by (simp add: x)
  then have "seedVec s1 \<noteq> seedVec s2" by auto
  then show ?thesis using assms by (simp add: uSeedVec_uniforms_of t)
qed

theorem seed_no_collision_witness:
  "uSeedVec (uniforms_of (default_params\<lparr>seed := real_of_int 1\<rparr>) 0 (800, 600) 0 0 (V3 0 0 0))
     \<noteq> uSeedVec (uniforms_of (default_params\<lparr>seed := real_of_int 9999\<rparr>) 0 (800, 600) 0 0 (V3 0 0 0))"
  using seed_no_collision [of 1 9999 default_params 0 "(800, 600)" 0 0 "V3 0 0 0"] by simp

section \<open>The refinement loop: sign and geometry of the bracket\<close>

lemma bisect_loop_unfold:
  "bisect_loop U ro rd val 0 ab =
     bisect_step U ro rd val (bisect_step U ro rd val (bisect_step U ro rd val
       (bisect_step U ro rd val ab)))"
proof -
  have s: "bisect_loop U ro rd val j ab = bisect_loop U ro rd val (j + 1) (bisect_step U ro rd val ab)"
    if "j < 4" for j ab
    using that by (subst bisect_loop.simps) simp
  have e: "bisect_loop U ro rd val 4 ab = ab" for ab
    by (subst bisect_loop.simps) simp
  show ?thesis
    using s [of 0 ab] s [of 1 "bisect_step U ro rd val ab"]
      s [of 2 "bisect_step U ro rd val (bisect_step U ro rd val ab)"]
      s [of 3 "bisect_step U ro rd val (bisect_step U ro rd val (bisect_step U ro rd val ab))"]
    by (simp add: e)
qed





section \<open>The marching loop\<close>

lemma ray_at_0: "vadd ro (vscale rd 0) = ro"
  by (cases ro) (simp add: vadd_def vscale_def)

lemma hash31_uMaxDist: "hash31 (U\<lparr>uMaxDist := D\<rparr>) p = hash31 U p"
  by (simp add: hash31_def)

lemma valueNoise_uMaxDist: "valueNoise (U\<lparr>uMaxDist := D\<rparr>) p = valueNoise U p"
  by (simp only: valueNoise_def hash31_uMaxDist)

lemma field_uMaxDist: "field (U\<lparr>uMaxDist := D\<rparr>) p = field U p"
  by (simp add: field_def fbm_closed valueNoise_uMaxDist)

lemma bisect_step_uMaxDist:
  "bisect_step (U\<lparr>uMaxDist := D\<rparr>) ro rd val ab = bisect_step U ro rd val ab"
  by (simp add: bisect_step_def field_uMaxDist)

lemma bisect_loop_uMaxDist:
  "bisect_loop (U\<lparr>uMaxDist := D\<rparr>) ro rd val 0 ab = bisect_loop U ro rd val 0 ab"
  by (simp add: bisect_loop_unfold bisect_step_uMaxDist)

lemma march_loop_maxDist_mono:
  assumes "march_loop U ro rd i t prevVal = Crossing t' h" and "uMaxDist U \<le> D"
  shows "march_loop (U\<lparr>uMaxDist := D\<rparr>) ro rd i t prevVal = Crossing t' h"
  using assms
proof (induction U ro rd i t prevVal rule: march_loop.induct)
  case (1 U ro rd i t prevVal)
  let ?val = "field U (vadd ro (vscale rd t))"
  from "1.prems"(1) have run: "i < 512" "\<not> uMaxSteps U \<le> i"
    by (subst (asm) march_loop.simps; simp split: if_splits)+
  show ?case
  proof (cases "?val * prevVal < 0")
    case True
    with run "1.prems"(1) show ?thesis
      by (subst march_loop.simps, subst (asm) march_loop.simps)
         (simp add: Let_def field_uMaxDist bisect_loop_uMaxDist)
  next
    case False
    with run "1.prems"(1) have far: "\<not> uMaxDist U < t + uStep U"
      by (subst (asm) march_loop.simps) (simp add: Let_def split: if_splits)
    with False run "1.prems"(1) have
      rec: "march_loop U ro rd (i + 1) (t + uStep U) ?val = Crossing t' h"
      by (subst (asm) march_loop.simps) (simp add: Let_def)
    have "march_loop (U\<lparr>uMaxDist := D\<rparr>) ro rd (i + 1) (t + uStep U) ?val = Crossing t' h"
      using run False far rec "1.prems"(2)
      by (intro "1.IH" [OF _ _ refl refl _ refl]) simp_all
    with run False far "1.prems"(2) show ?thesis
      by (subst march_loop.simps) (simp add: Let_def field_uMaxDist)
  qed
qed

lemma classify_Hit_iff: "classify r = Hit d \<longleftrightarrow> (\<exists>t. r = Crossing t d \<and> 0 < d)"
  by (cases r) (auto simp: classify_def)

text \<open>
  Claim C3. With everything else fixed, a larger \<open>uMaxDist\<close> never turns a Hit into a Miss
  and the Hit distance stays the same: the loop takes the same steps up to the crossing.
\<close>

theorem miss_monotone:
  assumes "uMaxDist U \<le> D" and "classify (march U ro rd) = Hit d"
  shows "classify (march (U\<lparr>uMaxDist := D\<rparr>) ro rd) = Hit d"
proof -
  from assms(2) obtain t where r: "march U ro rd = Crossing t d" and d: "0 < d"
    by (auto simp: classify_Hit_iff)
  from r have "march_loop U ro rd 0 0 (field U ro) = Crossing t d"
    by (simp add: march_def)
  from march_loop_maxDist_mono [OF this assms(1)]
  have "march (U\<lparr>uMaxDist := D\<rparr>) ro rd = Crossing t d"
    by (simp add: march_def field_uMaxDist)
  with d show ?thesis by (auto simp: classify_Hit_iff)
qed




text \<open>No crossing at all, and budgets that do not end the loop: the loop runs to \<open>i = 512\<close>.\<close>

lemma march_loop_no_crossing:
  assumes "\<And>p. field U p < 0" and "prevVal < 0"
    and "0 \<le> i" "i \<le> 512" "512 \<le> uMaxSteps U" "0 \<le> uStep U"
    and "t + real_of_int (512 - i) * uStep U \<le> uMaxDist U"
  shows "march_loop U ro rd i t prevVal = NoCrossing (t + real_of_int (512 - i) * uStep U)"
  using assms
proof (induction U ro rd i t prevVal rule: march_loop.induct)
  case (1 U ro rd i t prevVal)
  let ?val = "field U (vadd ro (vscale rd t))"
  show ?case
  proof (cases "i < 512")
    case False
    with "1.prems" have "i = 512" by simp
    then show ?thesis by (subst march_loop.simps) simp
  next
    case True
    have neg: "?val < 0" by (rule "1.prems"(1))
    with "1.prems"(2) have nocross: "\<not> ?val * prevVal < 0"
      by (simp add: mult_less_0_iff)
    have run: "\<not> uMaxSteps U \<le> i" using True "1.prems" by simp
    have "0 \<le> real_of_int (511 - i) * uStep U"
      using True "1.prems"(6) by simp
    moreover have "real_of_int (512 - i) * uStep U = uStep U + real_of_int (511 - i) * uStep U"
      by (simp add: algebra_simps)
    ultimately have near: "\<not> uMaxDist U < t + uStep U"
      and budget: "t + uStep U + real_of_int (512 - (i + 1)) * uStep U \<le> uMaxDist U"
      and same: "t + uStep U + real_of_int (512 - (i + 1)) * uStep U
                 = t + real_of_int (512 - i) * uStep U"
      using "1.prems"(7) by simp_all
    have "march_loop U ro rd (i + 1) (t + uStep U) ?val
          = NoCrossing (t + uStep U + real_of_int (512 - (i + 1)) * uStep U)"
      using True run nocross near "1.prems"(3,4,5,6) budget
      by (intro "1.IH" [OF _ _ refl refl _ refl _ "1.prems"(1) neg]) simp_all
    with True run nocross near same show ?thesis
      by (subst march_loop.simps) (simp add: Let_def)
  qed
qed

section \<open>Evaluation of the scene on the x axis\<close>

lemma toInt32_numerals: "toInt32 0 = 0" "toInt32 1 = 1" "toInt32 3 = 3" "toInt32 1024 = 1024"
  using toInt32_of_int [of 0] toInt32_of_int [of 1] toInt32_of_int [of 3]
    toInt32_of_int [of 1024]
  by simp_all

lemma seedVec_0: "seedVec 0 = V3 0 0 0"
  by (simp add: seedVec_def)

lemma axis_uniforms_fields:
  "uSeedVec axis_uniforms = V3 0 0 0" "uOctaves axis_uniforms = 1" "uFreq axis_uniforms = 1"
  "uTime axis_uniforms = 0" "uThreshold axis_uniforms = (284324016013760311 / 2000000000000000000)"
  "uStep axis_uniforms = 1" "uMaxSteps axis_uniforms = 1024" "uMaxDist axis_uniforms = 200"
  by (simp_all add: axis_uniforms_def uniforms_of_def default_params_def toInt32_numerals
        seedVec_0)

lemma hash31_origin:
  assumes "uSeedVec U = V3 0 0 0"
  shows "hash31 U (V3 0 0 0) = 0"
  using assms
  by (simp add: hash31_def Let_def fract3_def fract_def vadd_def vscale_def vadds_def dot_def
        yzx_def)

lemma hash31_unit_x:
  assumes "uSeedVec U = V3 0 0 0"
  shows "hash31 U (V3 1 0 0) = 284324016013760311 / 500000000000000000"
proof -
  have f: "fract 0.3183099 = 0.3183099"
    by (simp add: fract_def)
  have "fract3 (vadd (vscale (V3 1 0 0) 0.3183099) (uSeedVec U)) = V3 0.3183099 0 0"
    using assms by (simp add: fract3_def vadd_def vscale_def f) (simp add: fract_def)
  then show ?thesis
    by (simp add: hash31_def Let_def vadds_def dot_def yzx_def fract_def)
qed

lemma valueNoise_x_axis:
  assumes "0 \<le> s" "s < 1"
  shows "valueNoise U (V3 s 0 0)
         = mix (hash31 U (V3 0 0 0)) (hash31 U (V3 1 0 0)) (s * s * (3 - s * 2))"
proof -
  from assms have fl: "\<lfloor>s\<rfloor> = 0" by (simp add: floor_eq_iff)
  have i: "floor3 (V3 s 0 0) = V3 0 0 0" by (simp add: floor3_def fl)
  have f: "fract3 (V3 s 0 0) = V3 s 0 0" by (simp add: fract3_def fract_def fl)
  show ?thesis
    unfolding valueNoise_def Let_def i f
    by (simp add: vadd_def vmul_def vsub_def vscale_def mix_def)
qed

lemma valueNoise_unit_x: "valueNoise U (V3 1 0 0) = hash31 U (V3 1 0 0)"
proof -
  have i: "floor3 (V3 1 0 0) = V3 1 0 0" by (simp add: floor3_def)
  have f: "fract3 (V3 1 0 0) = V3 0 0 0" by (simp add: fract3_def fract_def)
  show ?thesis
    unfolding valueNoise_def Let_def i f
    by (simp add: vadd_def vmul_def vsub_def vscale_def mix_def)
qed

lemma field_one_octave:
  assumes "uOctaves U = 1" "uFreq U = 1" "uTime U = 0"
  shows "field U (V3 x y z) = 0.5 * valueNoise U (V3 x y z) - uThreshold U"
  using assms by (simp add: field_def fbm_closed vadd_def vscale_def)

lemma axis_field:
  assumes "0 \<le> s" "s < 1"
  shows "field axis_uniforms (vadd (V3 0 0 0) (vscale (V3 1 0 0) s))
         = 284324016013760311 / 1000000000000000000 * (s * s * (3 - s * 2))
           - (284324016013760311 / 2000000000000000000)"
proof -
  have "vadd (V3 0 0 0) (vscale (V3 1 0 0) s) = V3 s 0 0"
    by (simp add: vadd_def vscale_def)
  then show ?thesis
    using assms
    by (simp add: field_one_octave axis_uniforms_fields valueNoise_x_axis hash31_origin
          hash31_unit_x mix_def)
qed

lemma axis_field_0: "field axis_uniforms (V3 0 0 0) = - (284324016013760311 / 2000000000000000000)"
  by (simp add: field_one_octave axis_uniforms_fields valueNoise_x_axis hash31_origin
          hash31_unit_x mix_def)

lemma axis_field_1:
  "field axis_uniforms (vadd (V3 0 0 0) (vscale (V3 1 0 0) 1)) = (284324016013760311 / 2000000000000000000)"
proof -
  have "vadd (V3 0 0 0) (vscale (V3 1 0 0) 1) = V3 1 0 0"
    by (simp add: vadd_def vscale_def)
  then show ?thesis
    by (simp add: field_one_octave axis_uniforms_fields valueNoise_unit_x hash31_unit_x)
qed

lemma axis_bisect_steps:
  "bisect_step axis_uniforms (V3 0 0 0) (V3 1 0 0) (284324016013760311 / 2000000000000000000) (0, 1) = (0, 1 / 2)"
  "bisect_step axis_uniforms (V3 0 0 0) (V3 1 0 0) (284324016013760311 / 2000000000000000000) (0, 1 / 2) = (1 / 4, 1 / 2)"
  "bisect_step axis_uniforms (V3 0 0 0) (V3 1 0 0) (284324016013760311 / 2000000000000000000) (1 / 4, 1 / 2) = (3 / 8, 1 / 2)"
  "bisect_step axis_uniforms (V3 0 0 0) (V3 1 0 0) (284324016013760311 / 2000000000000000000) (3 / 8, 1 / 2) = (7 / 16, 1 / 2)"
  by (simp_all add: bisect_step_def Let_def axis_field)

lemma axis_march:
  "march axis_uniforms (V3 0 0 0) (V3 1 0 0) = Crossing 1 (15 / 32)"
proof -
  have step0: "march_loop axis_uniforms (V3 0 0 0) (V3 1 0 0) 0 0 (- (284324016013760311 / 2000000000000000000))
      = march_loop axis_uniforms (V3 0 0 0) (V3 1 0 0) 1 1 (- (284324016013760311 / 2000000000000000000))"
    by (subst march_loop.simps) (simp add: Let_def axis_uniforms_fields ray_at_0 axis_field_0)
  have step1: "march_loop axis_uniforms (V3 0 0 0) (V3 1 0 0) 1 1 (- (284324016013760311 / 2000000000000000000))
      = Crossing 1 (15 / 32)"
    by (subst march_loop.simps)
       (simp add: Let_def axis_uniforms_fields axis_field_1 bisect_loop_unfold axis_bisect_steps)
  show ?thesis
    by (simp add: march_def axis_field_0 step0 step1)
qed

section \<open>Evaluation of the scene with the origin at the midpoint\<close>













lemma normalize_unit_z: "normalize (V3 0 0 1) = Some (V3 0 0 1)"
  by (simp add: normalize_def dot_def vscale_def)

lemma normalize_z:
  assumes "0 < c"
  shows "normalize (V3 0 0 c) = Some (V3 0 0 1)"
proof -
  have "sqrt (c * c) = c" using assms by simp
  then show ?thesis using assms by (simp add: normalize_def dot_def vscale_def)
qed

lemma normalize_unit_x: "normalize (V3 1 0 0) = Some (V3 1 0 0)"
  by (simp add: normalize_def dot_def vscale_def)

text \<open>The ray of the scene is the one that \<^verbatim>\<open>main\<close> derives for \<open>vUv = (1/2, 1/2)\<close>.\<close>

lemma origin_main:
  "main origin_uniforms (1 / 2, 1 / 2) = main_color origin_uniforms (V3 0 0 (- 1)) (V3 0 0 1)"
proof -
  have f: "uRes origin_uniforms = (801, 601)" "uCamAngle origin_uniforms = 0"
    "uCamPitch origin_uniforms = 0" "uCamPos origin_uniforms = V3 0 0 (- 1)"
    by (simp_all add: origin_uniforms_def uniforms_of_def)
  have l: "lookAt (V3 0 0 (- 1)) (V3 0 0 0) = Some (V3 1 0 0, V3 0 1 0, V3 0 0 1)"
    by (simp add: lookAt_def vsub_def normalize_unit_z normalize_unit_x cross_def)
  have n: "normalize (V3 0 0 (8 / 5)) = Some (V3 0 0 1)"
    by (rule normalize_z) simp
  show ?thesis
    by (simp add: main_def f fdiv_def Let_def normalize_unit_z vadd_def l n mat_vec_def vscale_def)
qed

section \<open>The claims about the marcher\<close>




text \<open>The theorems on the distance budget and on the hit distance, in the scene on the x axis.\<close>

theorem miss_monotone_witness:
  "uMaxDist axis_uniforms \<le> 1000
   \<and> classify (march axis_uniforms (V3 0 0 0) (V3 1 0 0)) = Hit (15 / 32)
   \<and> classify (march (axis_uniforms\<lparr>uMaxDist := 1000\<rparr>) (V3 0 0 0) (V3 1 0 0)) = Hit (15 / 32)"
proof -
  have d: "uMaxDist axis_uniforms \<le> 1000" by (simp add: axis_uniforms_fields)
  have h: "classify (march axis_uniforms (V3 0 0 0) (V3 1 0 0)) = Hit (15 / 32)"
    by (simp add: axis_march classify_def)
  from miss_monotone [OF d h] d h show ?thesis by simp
qed


section \<open>The step budget\<close>

lemma geometric_sum_08: "(\<Sum>k<8. (0.8::real) ^ k) < 6"
  by (simp add: numeral_eq_Suc)

lemma field_negative_threshold_3:
  assumes "uGain U = 0.8" "uThreshold U = 3"
  shows "field U p < 0"
proof -
  have "0 < uGain U" "uGain U < 1" by (simp_all add: assms(1))
  then have "fbm U q \<le> 0.5 * (\<Sum>k<8. uGain U ^ k)" for q
    using fbm_bounds [of U q] by blast
  then have "fbm U q \<le> 0.5 * (\<Sum>k<8. (0.8::real) ^ k)" for q
    by (simp only: assms(1))
  moreover have "0.5 * (\<Sum>k<8. (0.8::real) ^ k) < 3"
    using geometric_sum_08 by simp
  ultimately have "fbm U q < 3" for q
    by (rule order_le_less_trans)
  then show ?thesis by (simp add: field_def assms(2))
qed

lemma hash31_uMaxSteps: "hash31 (U\<lparr>uMaxSteps := n\<rparr>) p = hash31 U p"
  by (simp add: hash31_def)

lemma valueNoise_uMaxSteps: "valueNoise (U\<lparr>uMaxSteps := n\<rparr>) p = valueNoise U p"
  by (simp only: valueNoise_def hash31_uMaxSteps)

lemma field_uMaxSteps: "field (U\<lparr>uMaxSteps := n\<rparr>) p = field U p"
  by (simp add: field_def fbm_closed valueNoise_uMaxSteps)

lemma bisect_loop_uMaxSteps:
  "bisect_loop (U\<lparr>uMaxSteps := n\<rparr>) ro rd val 0 ab = bisect_loop U ro rd val 0 ab"
  by (simp add: bisect_loop_unfold bisect_step_def field_uMaxSteps)

lemma march_loop_maxSteps_cap:
  assumes "512 \<le> uMaxSteps U" "512 \<le> n"
  shows "march_loop (U\<lparr>uMaxSteps := n\<rparr>) ro rd i t prevVal = march_loop U ro rd i t prevVal"
  using assms
proof (induction U ro rd i t prevVal rule: march_loop.induct)
  case (1 U ro rd i t prevVal)
  let ?val = "field U (vadd ro (vscale rd t))"
  show ?case
  proof (cases "i < 512 \<and> \<not> ?val * prevVal < 0 \<and> \<not> uMaxDist U < t + uStep U")
    case True
    with "1.prems" have
      "march_loop (U\<lparr>uMaxSteps := n\<rparr>) ro rd (i + 1) (t + uStep U) ?val
       = march_loop U ro rd (i + 1) (t + uStep U) ?val"
      by (intro "1.IH" [OF _ _ refl refl _ refl]) simp_all
    with True "1.prems" show ?thesis
      by (subst march_loop.simps, subst (2) march_loop.simps)
         (simp add: Let_def field_uMaxSteps)
  next
    case False
    with "1.prems" show ?thesis
      by (subst march_loop.simps, subst (2) march_loop.simps)
         (auto simp: Let_def field_uMaxSteps bisect_loop_uMaxSteps)
  qed
qed

lemma march_maxSteps_cap:
  "march (U\<lparr>uMaxSteps := 1024\<rparr>) ro rd = march (U\<lparr>uMaxSteps := 512\<rparr>) ro rd"
proof -
  have "march_loop ((U\<lparr>uMaxSteps := 512\<rparr>)\<lparr>uMaxSteps := 1024\<rparr>) ro rd 0 0 (field U ro)
        = march_loop (U\<lparr>uMaxSteps := 512\<rparr>) ro rd 0 0 (field U ro)"
    by (intro march_loop_maxSteps_cap) simp_all
  then show ?thesis by (simp add: march_def field_uMaxSteps)
qed

lemma threshold_3_scene:
  defines "U \<equiv> uniforms_of (default_params\<lparr>threshold := 3\<rparr>) 0 (800, 600) 0 0 (V3 0 0 0)"
  shows "uMaxSteps U = 1024" "uStep U = 1 / 100" "uMaxDist U = 200"
    "march U (V3 0 0 0) (V3 0 0 1) = NoCrossing (512 * (1 / 100))"
proof -
  show f: "uMaxSteps U = 1024" "uStep U = 1 / 100" "uMaxDist U = 200"
    by (simp_all add: U_def uniforms_of_def default_params_def toInt32_numerals)
  have g: "uGain U = 0.8" "uThreshold U = 3"
    by (simp_all add: U_def uniforms_of_def default_params_def)
  have neg: "field U p < 0" for p
    using g by (intro field_negative_threshold_3) simp_all
  have "march_loop U (V3 0 0 0) (V3 0 0 1) 0 0 (field U (V3 0 0 0))
        = NoCrossing (0 + real_of_int (512 - 0) * uStep U)"
    using f by (intro march_loop_no_crossing neg) simp_all
  then show "march U (V3 0 0 0) (V3 0 0 1) = NoCrossing (512 * (1 / 100))"
    by (simp add: march_def f)
qed

text \<open>
  Claim C2, at the input where the code departs from it. With the default parameters
  (\<open>maxSteps = 1024\<close>, \<open>stepSize = 0.01\<close>, \<open>maxDist = 200\<close>) and a threshold of 3, which no
  density reaches, the loop ends after 512 iterations, at \<open>t = 5.12\<close>, with a Miss: the
  step budget of 1024 is not exhausted and \<open>t\<close> does not exceed \<open>maxDist\<close>. The bound
  \<open>i < 512\<close> of the loop caps the steps below the default \<open>maxSteps\<close>: for every scene and
  ray, the marcher with \<open>uMaxSteps = 1024\<close> returns what it returns with \<open>uMaxSteps = 512\<close>.
\<close>

theorem march_stops_after_512:
  "uMaxSteps (uniforms_of (default_params\<lparr>threshold := 3\<rparr>) 0 (800, 600) 0 0 (V3 0 0 0)) = 1024
   \<and> uStep (uniforms_of (default_params\<lparr>threshold := 3\<rparr>) 0 (800, 600) 0 0 (V3 0 0 0)) = 1 / 100
   \<and> uMaxDist (uniforms_of (default_params\<lparr>threshold := 3\<rparr>) 0 (800, 600) 0 0 (V3 0 0 0)) = 200
   \<and> march (uniforms_of (default_params\<lparr>threshold := 3\<rparr>) 0 (800, 600) 0 0 (V3 0 0 0))
        (V3 0 0 0) (V3 0 0 1) = NoCrossing (512 * (1 / 100))
   \<and> classify (march (uniforms_of (default_params\<lparr>threshold := 3\<rparr>) 0 (800, 600) 0 0 (V3 0 0 0))
        (V3 0 0 0) (V3 0 0 1)) = Miss (512 * (1 / 100))
   \<and> march (V\<lparr>uMaxSteps := 1024\<rparr>) ro rd = march (V\<lparr>uMaxSteps := 512\<rparr>) ro rd"
proof -
  note sc = threshold_3_scene
  from sc(4) have
    "classify (march (uniforms_of (default_params\<lparr>threshold := 3\<rparr>) 0 (800, 600) 0 0 (V3 0 0 0))
        (V3 0 0 0) (V3 0 0 1)) = Miss (512 * (1 / 100))"
    by (simp add: classify_def)
  with sc march_maxSteps_cap [of V ro rd] show ?thesis by simp
qed

section \<open>The distance budget and the fog term\<close>

lemma march_first_exit:
  assumes "0 < uMaxSteps U" "uMaxDist U < uStep U"
  shows "march U ro rd = NoCrossing (uStep U)"
proof -
  have "\<not> field U ro * field U ro < 0" by (simp add: not_less)
  with assms show ?thesis
    unfolding march_def by (subst march_loop.simps) (simp add: Let_def ray_at_0)
qed

lemma set_param_maxDist:
  "set_param ''maxDist'' v P = P\<lparr>maxDist := v\<rparr>"
  by (simp add: set_param_def)

lemma shade_miss_None_iff: "shade_miss U t = None \<longleftrightarrow> uMaxDist U = 0"
  by (simp add: shade_miss_def fdiv_def)

lemma main_color_miss_None:
  assumes "hitT (march U ro rd) \<le> 0" "uMaxDist U = 0"
  shows "main_color U ro rd = None"
proof -
  from assms(2) have "shade_miss U (exit_t (march U ro rd)) = None"
    by (simp only: shade_miss_None_iff)
  with assms(1) show ?thesis
    by (simp add: main_color_def branch_color_def)
qed

text \<open>
  Claim C7, as amended. The program has no validation of the snapshot: a value
  \<open>v \<le> 0\<close> given for \<open>maxDist\<close> in the query string is stored and reaches the shader as
  \<open>uMaxDist\<close> unchanged. With a positive step and at least one step allowed, every pixel
  then leaves the loop after the first iteration as a Miss, and its colour is the fog term,
  which divides by \<open>uMaxDist\<close> during the evaluation of the pixel: for \<open>v < 0\<close> the
  division is defined, for \<open>v = 0\<close> it is a division by zero and the pixel is not finite.
\<close>

theorem maxDist_not_validated:
  assumes "v \<le> 0" "0 < stepSize P" "0 < toInt32 (maxSteps P)"
  shows "maxDist (parse_query [(''maxDist'', v)] P) = v
       \<and> uMaxDist (uniforms_of (parse_query [(''maxDist'', v)] P) tm res ca cp cpos) = v
       \<and> march (uniforms_of (parse_query [(''maxDist'', v)] P) tm res ca cp cpos) ro rd
           = NoCrossing (stepSize P)
       \<and> branch_color (uniforms_of (parse_query [(''maxDist'', v)] P) tm res ca cp cpos) ro rd
           (march (uniforms_of (parse_query [(''maxDist'', v)] P) tm res ca cp cpos) ro rd)
           = shade_miss (uniforms_of (parse_query [(''maxDist'', v)] P) tm res ca cp cpos)
               (stepSize P)
       \<and> (shade_miss (uniforms_of (parse_query [(''maxDist'', v)] P) tm res ca cp cpos)
               (stepSize P) = None \<longleftrightarrow> v = 0)
       \<and> (v = 0 \<longrightarrow>
             main_color (uniforms_of (parse_query [(''maxDist'', v)] P) tm res ca cp cpos) ro rd
               = None)"
proof -
  define U where "U = uniforms_of (parse_query [(''maxDist'', v)] P) tm res ca cp cpos"
  have p: "maxDist (parse_query [(''maxDist'', v)] P) = v"
    by (simp add: set_param_maxDist)
  have f: "uMaxDist U = v" "uStep U = stepSize P" "uMaxSteps U = toInt32 (maxSteps P)"
    by (simp_all add: U_def uniforms_of_def set_param_maxDist)
  have m: "march U ro rd = NoCrossing (stepSize P)"
    using march_first_exit [of U ro rd] assms f by simp
  then have b: "branch_color U ro rd (march U ro rd) = shade_miss U (stepSize P)"
    by (simp add: branch_color_def)
  have n: "shade_miss U (stepSize P) = None \<longleftrightarrow> v = 0"
    by (simp add: shade_miss_None_iff f)
  have "main_color U ro rd = None" if "v = 0"
    using that m f by (intro main_color_miss_None) simp_all
  with p f m b n show ?thesis unfolding U_def by blast
qed

theorem maxDist_not_validated_witness:
  "(0::real) \<le> 0 \<and> 0 < stepSize default_params \<and> 0 < toInt32 (maxSteps default_params)
   \<and> maxDist (parse_query [(''maxDist'', 0)] default_params) = 0
   \<and> main_color (uniforms_of (parse_query [(''maxDist'', 0)] default_params) 0 (800, 600) 0 0
        (V3 0 0 0)) (V3 0 0 0) (V3 0 0 1) = None"
proof -
  have h: "(0::real) \<le> 0" "0 < stepSize default_params" "0 < toInt32 (maxSteps default_params)"
    by (simp_all add: default_params_def toInt32_numerals)
  from maxDist_not_validated [OF h, of 0 "(800, 600)" 0 0 "V3 0 0 0" "V3 0 0 0" "V3 0 0 1"] h
  show ?thesis by simp
qed

text \<open>
  Claim C7 as stated fails: the query \<open>maxDist=0\<close> is not rejected, the snapshot used is
  not the last valid one but the one with \<open>maxDist = 0\<close>, the centre ray is a Miss whose fog
  term divides by zero, and the pixel is not finite.
\<close>

theorem zero_maxDist_reaches_fog_division:
  "parse_query [(''maxDist'', 0)] default_params = default_params\<lparr>maxDist := 0\<rparr>
   \<and> uMaxDist (uniforms_of (parse_query [(''maxDist'', 0)] default_params) 0 (800, 600) 0 0
        (V3 0 0 0)) = 0
   \<and> classify (march (uniforms_of (parse_query [(''maxDist'', 0)] default_params) 0 (800, 600) 0 0
        (V3 0 0 0)) (V3 0 0 0) (V3 0 0 1)) = Miss (1 / 100)
   \<and> fdiv 1 (uMaxDist (uniforms_of (parse_query [(''maxDist'', 0)] default_params) 0 (800, 600)
        0 0 (V3 0 0 0))) = None
   \<and> main_color (uniforms_of (parse_query [(''maxDist'', 0)] default_params) 0 (800, 600) 0 0
        (V3 0 0 0)) (V3 0 0 0) (V3 0 0 1) = None"
proof -
  define U where "U = uniforms_of (parse_query [(''maxDist'', 0)] default_params) 0 (800, 600) 0 0
        (V3 0 0 0)"
  have f: "uMaxDist U = 0" "uStep U = 1 / 100" "uMaxSteps U = 1024"
    by (simp_all add: U_def uniforms_of_def set_param_maxDist default_params_def toInt32_numerals)
  have m: "march U (V3 0 0 0) (V3 0 0 1) = NoCrossing (1 / 100)"
    using march_first_exit [of U "V3 0 0 0" "V3 0 0 1"] f by simp
  then have c: "classify (march U (V3 0 0 0) (V3 0 0 1)) = Miss (1 / 100)"
    by (simp add: classify_def)
  have n: "main_color U (V3 0 0 0) (V3 0 0 1) = None"
    using m f by (intro main_color_miss_None) simp_all
  have d: "fdiv 1 (uMaxDist U) = None" by (simp add: fdiv_def f)
  have "parse_query [(''maxDist'', 0)] default_params = default_params\<lparr>maxDist := 0\<rparr>"
    by (simp add: set_param_maxDist)
  with f c d n show ?thesis unfolding U_def by simp
qed

section \<open>Tonemap\<close>

lemma tonemap1_unit:
  assumes "0 \<le> c"
  shows "\<exists>y. tonemap1 c = Some y \<and> 0 \<le> y \<and> y \<le> 1"
  using assms by (simp add: tonemap1_def fdiv_def)

lemma tonemap_unit:
  assumes c: "0 \<le> vx col" "0 \<le> vy col" "0 \<le> vz col"
  shows "\<exists>out. tonemap col = Some out \<and> 0 \<le> vx out \<and> vx out \<le> 1 \<and> 0 \<le> vy out \<and> vy out \<le> 1
             \<and> 0 \<le> vz out \<and> vz out \<le> 1"
proof -
  from tonemap1_unit [OF c(1)] obtain r where r: "tonemap1 (vx col) = Some r" "0 \<le> r" "r \<le> 1"
    by blast
  from tonemap1_unit [OF c(2)] obtain g where g: "tonemap1 (vy col) = Some g" "0 \<le> g" "g \<le> 1"
    by blast
  from tonemap1_unit [OF c(3)] obtain b where b: "tonemap1 (vz col) = Some b" "0 \<le> b" "b \<le> 1"
    by blast
  from r g b have "tonemap col = Some (V3 r g b)" by (simp add: tonemap_def)
  with r g b show ?thesis by simp
qed

text \<open>
  Claim C8, as amended. For every colour with nonnegative components the tonemap
  \<open>col / (1 + col)\<close> is defined and each component of the result lies in \<open>[0,1]\<close>, before the
  output curve; and \<open>main\<close> applies the same tonemap followed by the same curve
  \<open>pow(col, 0.95)\<close> to the colour of the Hit branch and to the colour of the Miss branch.
\<close>

theorem tonemap_range_and_paths:
  "(0 \<le> vx col \<and> 0 \<le> vy col \<and> 0 \<le> vz col \<longrightarrow>
      (\<exists>out. tonemap col = Some out \<and> 0 \<le> vx out \<and> vx out \<le> 1 \<and> 0 \<le> vy out \<and> vy out \<le> 1
             \<and> 0 \<le> vz out \<and> vz out \<le> 1))
   \<and> main_color U ro rd =
       (if hitT (march U ro rd) > 0
        then (shade_hit U ro rd (hitT (march U ro rd)) \<bind> tonemap) \<bind> gamma
        else (shade_miss U (exit_t (march U ro rd)) \<bind> tonemap) \<bind> gamma)"
proof -
  have "main_color U ro rd =
       (if hitT (march U ro rd) > 0
        then (shade_hit U ro rd (hitT (march U ro rd)) \<bind> tonemap) \<bind> gamma
        else (shade_miss U (exit_t (march U ro rd)) \<bind> tonemap) \<bind> gamma)"
    by (simp add: main_color_def branch_color_def)
  then show ?thesis using tonemap_unit [of col] by blast
qed

theorem tonemap_range_and_paths_witness:
  "0 \<le> vx (V3 1 3 0) \<and> 0 \<le> vy (V3 1 3 0) \<and> 0 \<le> vz (V3 1 3 0)
   \<and> tonemap (V3 1 3 0) = Some (V3 (1 / 2) (3 / 4) 0)"
  using tonemap_range_and_paths [of "V3 1 3 0"]
  by (simp add: tonemap_def tonemap1_def fdiv_def)

lemma exp_hundredth: "1 < exp (1 / 100 :: real)" "exp (1 / 100 :: real) < 2"
proof -
  show "1 < exp (1 / 100 :: real)" by (rule exp_gt_one) simp
  have "exp (1 / 100 :: real) \<le> 1 + 1 / 100 + (1 / 100)\<^sup>2"
    by (rule exp_bound) simp_all
  also have "\<dots> < 2" by (simp add: power2_eq_square)
  finally show "exp (1 / 100 :: real) < 2" .
qed

lemma tonemap1_negative:
  assumes "- 1 < c" "c < 0"
  shows "\<exists>y. tonemap1 c = Some y \<and> y < 0"
  using assms by (simp add: tonemap1_def fdiv_def divide_neg_pos)

text \<open>
  Claim C8 as stated fails for a colour with a negative component: the tonemap sends
  \<open>-1/2\<close> to \<open>-1\<close>. The program produces such colours: with \<open>maxDist = -1\<close> the centre ray
  is a Miss, the fog colour has negative components, and so has the tonemapped colour.
\<close>

theorem tonemap_negative_color:
  "tonemap (V3 (- (1 / 2)) 0 0) = Some (V3 (- 1) 0 0)
   \<and> \<not> 0 \<le> vx (V3 (- 1) 0 0)
   \<and> classify (march (uniforms_of (default_params\<lparr>maxDist := - 1\<rparr>) 0 (800, 600) 0 0 (V3 0 0 0))
        (V3 0 0 0) (V3 0 0 1)) = Miss (1 / 100)
   \<and> shade_miss (uniforms_of (default_params\<lparr>maxDist := - 1\<rparr>) 0 (800, 600) 0 0 (V3 0 0 0))
        (1 / 100) \<noteq> None
   \<and> vx (the (shade_miss (uniforms_of (default_params\<lparr>maxDist := - 1\<rparr>) 0 (800, 600) 0 0
        (V3 0 0 0)) (1 / 100))) < 0
   \<and> shade_miss (uniforms_of (default_params\<lparr>maxDist := - 1\<rparr>) 0 (800, 600) 0 0 (V3 0 0 0))
        (1 / 100) \<bind> tonemap \<noteq> None
   \<and> vx (the (shade_miss (uniforms_of (default_params\<lparr>maxDist := - 1\<rparr>) 0 (800, 600) 0 0
        (V3 0 0 0)) (1 / 100) \<bind> tonemap)) < 0"
proof -
  define U where "U = uniforms_of (default_params\<lparr>maxDist := - 1\<rparr>) 0 (800, 600) 0 0 (V3 0 0 0)"
  define e where "e = exp (1 / 100 :: real)"
  have e: "1 < e" "e < 2" using exp_hundredth by (simp_all add: e_def)
  have f: "uMaxDist U = - 1" "uStep U = 1 / 100" "uMaxSteps U = 1024"
    by (simp_all add: U_def uniforms_of_def default_params_def toInt32_numerals)
  have m: "march U (V3 0 0 0) (V3 0 0 1) = NoCrossing (1 / 100)"
    using march_first_exit [of U "V3 0 0 0" "V3 0 0 1"] f by simp
  then have c: "classify (march U (V3 0 0 0) (V3 0 0 1)) = Miss (1 / 100)"
    by (simp add: classify_def)
  define col where "col = V3 (1 / 10 * (1 - e) - 2 / 1000) (15 / 100 * (1 - e) - 1 / 1000)
      (2 / 10 * (1 - e) - 5 / 10000)"
  have s: "shade_miss U (1 / 100) = Some col"
    by (simp add: shade_miss_def fdiv_def f mix3_def mix_def vadd_def col_def e_def Let_def)
  have x1: "- 1 < vx col" using e unfolding col_def vec3.sel by argo
  have x2: "vx col < 0" using e unfolding col_def vec3.sel by argo
  have y1: "- 1 < vy col" using e unfolding col_def vec3.sel by argo
  have y2: "vy col < 0" using e unfolding col_def vec3.sel by argo
  have z1: "- 1 < vz col" using e unfolding col_def vec3.sel by argo
  have z2: "vz col < 0" using e unfolding col_def vec3.sel by argo
  from tonemap1_negative [OF x1 x2] obtain r where r: "tonemap1 (vx col) = Some r" "r < 0" by blast
  from tonemap1_negative [OF y1 y2] obtain g where g: "tonemap1 (vy col) = Some g" "g < 0" by blast
  from tonemap1_negative [OF z1 z2] obtain b where b: "tonemap1 (vz col) = Some b" "b < 0" by blast
  from r g b have t: "tonemap col = Some (V3 r g b)" by (simp add: tonemap_def)
  have first: "tonemap (V3 (- (1 / 2)) 0 0) = Some (V3 (- 1) 0 0) \<and> \<not> 0 \<le> vx (V3 (- 1) 0 0)"
    by (simp add: tonemap_def tonemap1_def fdiv_def)
  from first c s x2 t r show ?thesis unfolding U_def [symmetric] by simp
qed

end
